theory Spec2Isabelle
  imports Complex_Main "HOL-Library.Sublist"
begin

section \<open>Shared data model\<close>

text \<open>
  The screens of the application are React components whose handlers read component state,
  call the hosted backend and write component state. Each handler is embedded as a function
  from the state it reads (and the backend's answer, where it awaits one) to the state it
  leaves and the requests and notifications it issued. JavaScript strings are embedded as
  \<^typ>\<open>string\<close>; \<open>null\<close> and \<open>undefined\<close> are \<^const>\<open>None\<close>.
\<close>

text \<open>\<open>type ReportStatus = 'submitted' | 'in_review' | 'assigned' | 'in_progress' | 'resolved' | 'rejected'\<close>\<close>

datatype ReportStatus = Submitted | In_review | Assigned | In_progress | Resolved | Rejected

text \<open>The string literal each member of the union stands for.\<close>

fun status_str :: "ReportStatus \<Rightarrow> string" where
  "status_str Submitted = ''submitted''"
| "status_str In_review = ''in_review''"
| "status_str Assigned = ''assigned''"
| "status_str In_progress = ''in_progress''"
| "status_str Resolved = ''resolved''"
| "status_str Rejected = ''rejected''"

text \<open>
  \<open>interface Report\<close> of the admin and tracking screens (the tracking screen's interface adds
  \<open>resolved_at\<close>). \<open>city\<close> is declared \<open>string\<close>, but the admin filter reads it through
  \<open>?.\<close>, so a row may carry \<open>null\<close> there.
\<close>

record Report =
  id :: string
  report_number :: string
  title :: string
  description :: string
  category :: string
  severity :: string
  status :: ReportStatus
  address :: string
  city :: "string option"
  state :: string
  assigned_to :: "string option"
  authority_remarks :: "string option"
  image_urls :: "string list option"
  created_at :: string
  updated_at :: string
  resolved_at :: "string option"

text \<open>The \<open>{ data, error }\<close> object a backend call resolves to; \<open>error\<close> carries its message.\<close>

record 'a response =
  data :: "'a option"
  error :: "string option"

text \<open>A call of \<open>toast({ title, description, variant })\<close>.\<close>

record toast =
  toast_title :: string
  toast_description :: string
  destructive :: bool

section \<open>Report tracking: the status timeline\<close>

text \<open>\<open>statusConfig[status].label\<close>, the text of the status badge.\<close>

fun statusConfig_label :: "ReportStatus \<Rightarrow> string" where
  "statusConfig_label Submitted = ''Submitted''"
| "statusConfig_label In_review = ''In Review''"
| "statusConfig_label Assigned = ''Assigned''"
| "statusConfig_label In_progress = ''In Progress''"
| "statusConfig_label Resolved = ''Resolved''"
| "statusConfig_label Rejected = ''Rejected''"

definition statusOrder :: "ReportStatus list" where
  "statusOrder = [Submitted, In_review, Assigned, In_progress, Resolved]"

text \<open>\<open>Array.prototype.indexOf\<close>: the first index holding the element, \<open>-1\<close> when there is none.\<close>

fun indexOf_from :: "'a list \<Rightarrow> 'a \<Rightarrow> int \<Rightarrow> int" where
  "indexOf_from [] x i = - 1"
| "indexOf_from (y # ys) x i = (if y = x then i else indexOf_from ys x (i + 1))"

definition indexOf :: "'a list \<Rightarrow> 'a \<Rightarrow> int" where
  "indexOf xs x = indexOf_from xs x 0"

definition getStatusIndex :: "ReportStatus \<Rightarrow> int" where
  "getStatusIndex s = indexOf statusOrder s"

text \<open>
  One circle of the timeline, as \<open>statusOrder.map((status, index) => ...)\<close> renders it:
  the step's status and label, \<open>isCompleted\<close> and \<open>isCurrent\<close>.
\<close>

record timeline_step =
  step_status :: ReportStatus
  step_label :: string
  isCompleted :: bool
  isCurrent :: bool

definition timeline :: "Report \<Rightarrow> timeline_step list" where
  "timeline report =
     map (\<lambda>(s, index).
            \<lparr> step_status = s,
              step_label = statusConfig_label s,
              isCompleted = (getStatusIndex (status report) \<ge> int index),
              isCurrent = (status report = s) \<rparr>)
         (zip statusOrder [0 ..< length statusOrder])"

text \<open>The badge in the card header: \<open>statusConfig[report.status].label\<close>.\<close>

definition status_badge :: "Report \<Rightarrow> string" where
  "status_badge report = statusConfig_label (status report)"

section \<open>Admin dashboard\<close>

subsection \<open>Client-side search\<close>

text \<open>
  \<open>String.prototype.toLowerCase\<close> on the ASCII letters (a \<^typ>\<open>char\<close> is a byte; other bytes
  are left as they are) and \<open>String.prototype.includes\<close>.
\<close>

definition lower_char :: "char \<Rightarrow> char" where
  "lower_char c =
     (let n = (of_char c :: nat) in if 65 \<le> n \<and> n \<le> 90 then char_of (n + 32) else c)"

definition toLowerCase :: "string \<Rightarrow> string" where
  "toLowerCase s = map lower_char s"

fun startsWith :: "string \<Rightarrow> string \<Rightarrow> bool" where
  "startsWith s [] = True"
| "startsWith [] (c # t) = False"
| "startsWith (a # s) (c # t) = (a = c \<and> startsWith s t)"

fun str_includes :: "string \<Rightarrow> string \<Rightarrow> bool" where
  "str_includes [] t = (t = [])"
| "str_includes (a # s) t = (startsWith (a # s) t \<or> str_includes s t)"

text \<open>
  The predicate of \<open>filteredReports\<close>. \<open>report.city?.toLowerCase().includes(...)\<close> is
  \<open>undefined\<close> when the city is \<open>null\<close> (the optional chain stops there), which \<open>||\<close> and
  \<open>filter\<close> read as false.
\<close>

definition search_matches :: "string \<Rightarrow> Report \<Rightarrow> bool" where
  "search_matches searchQuery report =
     (str_includes (toLowerCase (title report)) (toLowerCase searchQuery) \<or>
      str_includes (toLowerCase (report_number report)) (toLowerCase searchQuery) \<or>
      (case city report of
         None \<Rightarrow> False
       | Some c \<Rightarrow> str_includes (toLowerCase c) (toLowerCase searchQuery)))"

definition filteredReports :: "Report list \<Rightarrow> string \<Rightarrow> Report list" where
  "filteredReports reports searchQuery = filter (search_matches searchQuery) reports"

subsection \<open>Fetching the list and counting it\<close>

record Stats =
  total :: nat
  submitted :: nat
  in_progress :: nat
  resolved :: nat

record updateData =
  ud_status :: string
  ud_assigned_to :: string
  ud_remarks :: string

record admin_state =
  reports :: "Report list"
  stats :: Stats
  loading :: bool
  searchQuery :: string
  categoryFilter :: string
  statusFilter :: string
  selectedReport :: "Report option"
  updateData :: updateData
  updating :: bool

text \<open>
  The query \<open>fetchReports\<close> builds: \<open>select('*')\<close> on \<open>reports\<close>, newest first, with an
  \<open>eq\<close> filter for each of the two selectors that is not \<open>'all'\<close>.
\<close>

record reports_query =
  eq_category :: "string option"
  eq_status :: "string option"

definition fetchReports_query :: "admin_state \<Rightarrow> reports_query" where
  "fetchReports_query st =
     \<lparr> eq_category = (if categoryFilter st \<noteq> ''all'' then Some (categoryFilter st) else None),
       eq_status = (if statusFilter st \<noteq> ''all'' then Some (statusFilter st) else None) \<rparr>"

text \<open>
  \<open>fetchReports\<close>, given what the query resolved to. An error is thrown to the \<open>catch\<close>, which
  logs it and changes nothing; \<open>finally\<close> clears \<open>loading\<close>.
\<close>

definition fetchReports :: "admin_state \<Rightarrow> Report list response \<Rightarrow> admin_state" where
  "fetchReports st resp =
     (case error resp of
        Some e \<Rightarrow> st\<lparr>loading := False\<rparr>
      | None \<Rightarrow>
          (let allReports = (case data resp of None \<Rightarrow> [] | Some d \<Rightarrow> d) in
           st\<lparr> reports := allReports,
               stats := \<lparr> total = length allReports,
                          submitted = length (filter (\<lambda>r. status r = Submitted) allReports),
                          in_progress = length (filter (\<lambda>r. status r \<in> set [In_review, Assigned, In_progress]) allReports),
                          resolved = length (filter (\<lambda>r. status r = Resolved) allReports) \<rparr>,
               loading := False \<rparr>))"

subsection \<open>Updating a report\<close>

text \<open>
  The object \<open>updates\<close> of \<open>handleUpdateReport\<close>: it starts empty and receives a property for
  each test that holds, in this order. \<open>now\<close> is \<open>new Date().toISOString()\<close>.
\<close>

definition build_updates :: "updateData \<Rightarrow> string \<Rightarrow> (string \<times> string) list" where
  "build_updates ud now =
     (if ud_status ud \<noteq> [] then [(''status'', ud_status ud)] else []) @
     (if ud_assigned_to ud \<noteq> [] then [(''assigned_to'', ud_assigned_to ud)] else []) @
     (if ud_remarks ud \<noteq> [] then [(''authority_remarks'', ud_remarks ud)] else []) @
     (if ud_status ud = ''resolved'' then [(''resolved_at'', now)] else [])"

text \<open>\<open>supabase.from('reports').update(updates).eq('id', selectedReport.id)\<close>.\<close>

record update_request =
  req_updates :: "(string \<times> string) list"
  req_id :: string

record update_result =
  ur_state :: admin_state
  ur_request :: "update_request option"
  ur_toasts :: "toast list"

text \<open>
  \<open>handleUpdateReport\<close>, given the clock, the error of the update (if any) and what the
  following \<open>fetchReports()\<close> resolves to. Without a selected report it returns at once.
\<close>

definition handleUpdateReport ::
  "admin_state \<Rightarrow> string \<Rightarrow> string option \<Rightarrow> Report list response \<Rightarrow> update_result" where
  "handleUpdateReport st now update_error refetched =
     (case selectedReport st of
        None \<Rightarrow> \<lparr> ur_state = st, ur_request = None, ur_toasts = [] \<rparr>
      | Some sel \<Rightarrow>
          (let updates = build_updates (updateData st) now;
               request = \<lparr> req_updates = updates, req_id = id sel \<rparr> in
           (case update_error of
              Some msg \<Rightarrow>
                \<lparr> ur_state = st\<lparr>updating := False\<rparr>,
                  ur_request = Some request,
                  ur_toasts = [\<lparr> toast_title = ''Update failed'', toast_description = msg,
                                 destructive = True \<rparr>] \<rparr>
            | None \<Rightarrow>
                \<lparr> ur_state = (fetchReports (st\<lparr>selectedReport := None\<rparr>) refetched)\<lparr>updating := False\<rparr>,
                  ur_request = Some request,
                  ur_toasts = [\<lparr> toast_title = ''Report updated'',
                                 toast_description = ''The report has been updated successfully.'',
                                 destructive = False \<rparr>] \<rparr>)))"

text \<open>
  Modelled from the spec: the hosted \<open>reports\<close> table's update, which is not under src/
  ("committing issues a partial-field update"). Each property of the update object overwrites
  that column of the row; a column the object does not name keeps its value. The status column
  holds one of the six enumeration values, so another string there is refused, as is a column
  the table does not have.
\<close>

definition status_of_str :: "string \<Rightarrow> ReportStatus option" where
  "status_of_str s =
     (if s = ''submitted'' then Some Submitted
      else if s = ''in_review'' then Some In_review
      else if s = ''assigned'' then Some Assigned
      else if s = ''in_progress'' then Some In_progress
      else if s = ''resolved'' then Some Resolved
      else if s = ''rejected'' then Some Rejected
      else None)"

definition set_column :: "string \<times> string \<Rightarrow> Report \<Rightarrow> Report option" where
  "set_column kv r =
     (if fst kv = ''status'' then map_option (\<lambda>s. r\<lparr>status := s\<rparr>) (status_of_str (snd kv))
      else if fst kv = ''assigned_to'' then Some (r\<lparr>assigned_to := Some (snd kv)\<rparr>)
      else if fst kv = ''authority_remarks'' then Some (r\<lparr>authority_remarks := Some (snd kv)\<rparr>)
      else if fst kv = ''resolved_at'' then Some (r\<lparr>resolved_at := Some (snd kv)\<rparr>)
      else None)"

fun apply_updates :: "(string \<times> string) list \<Rightarrow> Report \<Rightarrow> Report option" where
  "apply_updates [] r = Some r"
| "apply_updates (kv # kvs) r =
     (case set_column kv r of None \<Rightarrow> None | Some r' \<Rightarrow> apply_updates kvs r')"

text \<open>
  The columns an update of a report is to leave alone: all but the status, the assignee, the
  remarks and the resolution time.
\<close>

definition unchanged :: "Report \<Rightarrow> Report \<Rightarrow> bool" where
  "unchanged r r' \<longleftrightarrow>
     id r' = id r \<and> report_number r' = report_number r \<and> title r' = title r \<and>
     description r' = description r \<and> category r' = category r \<and> severity r' = severity r \<and>
     address r' = address r \<and> city r' = city r \<and> state r' = state r \<and>
     image_urls r' = image_urls r \<and> created_at r' = created_at r \<and> updated_at r' = updated_at r"

section \<open>Report tracking: looking a report up\<close>

record track_state =
  searchId :: string
  report :: "Report option"
  userReports :: "Report list"
  loading_track :: bool
  loadingUserReports :: bool

text \<open>\<open>String.prototype.trim\<close> on the ASCII white space (tab, line feed, vertical tab, form
  feed, carriage return, space).\<close>

definition is_space :: "char \<Rightarrow> bool" where
  "is_space c = ((of_char c :: nat) \<in> set [9, 10, 11, 12, 13, 32])"

definition trim :: "string \<Rightarrow> string" where
  "trim s = rev (dropWhile is_space (rev (dropWhile is_space s)))"

text \<open>
  Modelled from the spec: the hosted \<open>reports\<close> table and its lookup by tracking number, which
  are not under src/ ("given a tracking number, fetch at most one matching row"). The request
  either fails as a whole, or the rows whose \<open>report_number\<close> equals the argument are selected
  and \<open>maybeSingle()\<close> hands over none of them (no data, no error), the only one, or an error
  when there are several.
\<close>

definition maybeSingle :: "'a list \<Rightarrow> 'a response" where
  "maybeSingle rows =
     (case rows of
        [] \<Rightarrow> \<lparr> data = None, error = None \<rparr>
      | [r] \<Rightarrow> \<lparr> data = Some r, error = None \<rparr>
      | _ \<Rightarrow> \<lparr> data = None,
               error = Some ''JSON object requested, multiple (or no) rows returned'' \<rparr>)"

definition reports_lookup :: "string option \<Rightarrow> Report list \<Rightarrow> string \<Rightarrow> Report response" where
  "reports_lookup failure table reportId =
     (case failure of
        Some msg \<Rightarrow> \<lparr> data = None, error = Some msg \<rparr>
      | None \<Rightarrow> maybeSingle (filter (\<lambda>r. report_number r = reportId) table))"

record search_result =
  sr_state :: track_state
  sr_lookups :: "string list"
  sr_toasts :: "toast list"

text \<open>\<open>const reportId = id || searchId.trim()\<close>: an absent or empty \<open>id\<close> gives the trimmed input.\<close>

definition search_reportId :: "track_state \<Rightarrow> string option \<Rightarrow> string" where
  "search_reportId st ident =
     (case ident of
        None \<Rightarrow> trim (searchId st)
      | Some i \<Rightarrow> if i \<noteq> [] then i else trim (searchId st))"

text \<open>
  \<open>searchReport\<close>, given the backend as a function from the tracking number asked for to the
  answer. \<open>sr_lookups\<close> lists the tracking numbers it asked the backend for.
\<close>

definition searchReport ::
  "track_state \<Rightarrow> string option \<Rightarrow> (string \<Rightarrow> Report response) \<Rightarrow> search_result" where
  "searchReport st ident backend =
     (let reportId = search_reportId st ident in
      if reportId = [] then
        \<lparr> sr_state = st, sr_lookups = [],
          sr_toasts = [\<lparr> toast_title = ''Enter Report ID'',
                         toast_description = ''Please enter a valid report ID to search.'',
                         destructive = True \<rparr>] \<rparr>
      else
        (let resp = backend reportId in
         case error resp of
           Some msg \<Rightarrow>
             \<lparr> sr_state = st\<lparr>loading_track := False\<rparr>, sr_lookups = [reportId],
               sr_toasts = [\<lparr> toast_title = ''Search failed'',
                              toast_description = (if msg \<noteq> [] then msg else ''Please try again.''),
                              destructive = True \<rparr>] \<rparr>
         | None \<Rightarrow>
             (case data resp of
                None \<Rightarrow>
                  \<lparr> sr_state = st\<lparr>report := None, loading_track := False\<rparr>, sr_lookups = [reportId],
                    sr_toasts = [\<lparr> toast_title = ''Report not found'',
                                   toast_description = ''No report found with this ID. Please check and try again.'',
                                   destructive = True \<rparr>] \<rparr>
              | Some d \<Rightarrow>
                  \<lparr> sr_state = st\<lparr>report := Some d, loading_track := False\<rparr>, sr_lookups = [reportId],
                    sr_toasts = [] \<rparr>)))"

section \<open>Leaderboard\<close>

text \<open>A row of \<open>profiles\<close> as the query selects it, and the entry made of it.\<close>

record profile =
  profile_id :: string
  user_id :: string
  full_name :: "string option"
  points :: int
  profile_city :: "string option"

record LeaderboardEntry = profile +
  badge_count :: nat



definition enrich :: "(string \<rightharpoonup> nat) \<Rightarrow> profile \<Rightarrow> LeaderboardEntry" where
  "enrich m p =
     \<lparr> profile_id = profile_id p, user_id = user_id p, full_name = full_name p,
       points = points p, profile_city = profile_city p,
       badge_count = (case m (user_id p) of None \<Rightarrow> 0 | Some c \<Rightarrow> c) \<rparr>"



definition at_index :: "'a list \<Rightarrow> int \<Rightarrow> 'a option" where
  "at_index xs i = (if 0 \<le> i \<and> i < int (length xs) then Some (xs ! nat i) else None)"






section \<open>Education: quizzes and progress\<close>

record Quiz =
  quiz_ident :: string
  question :: string
  options :: "string list"
  correct_answer :: int
  quiz_points :: int
  category_id :: string

record UserProgress =
  quiz_id :: string
  is_correct :: bool

text \<open>The part of the component's state the quiz handlers read or write.\<close>

record education_state =
  quizzes :: "Quiz list"
  userProgress :: "UserProgress list"
  selectedCategory :: "string option"
  currentQuizIndex :: nat
  selectedAnswer :: "int option"
  showResult :: bool

definition getCategoryQuizzes :: "education_state \<Rightarrow> string \<Rightarrow> Quiz list" where
  "getCategoryQuizzes st categoryId = filter (\<lambda>q. category_id q = categoryId) (quizzes st)"

record category_progress =
  completed :: nat
  total_quizzes :: nat
  correct :: nat

definition getCategoryProgress :: "education_state \<Rightarrow> string \<Rightarrow> category_progress" where
  "getCategoryProgress st categoryId =
     (let categoryQuizzes = getCategoryQuizzes st categoryId;
          completedQuizzes =
            filter (\<lambda>p. list_ex (\<lambda>q. quiz_ident q = quiz_id p) categoryQuizzes) (userProgress st) in
      \<lparr> completed = length completedQuizzes,
        total_quizzes = length categoryQuizzes,
        correct = length (filter is_correct completedQuizzes) \<rparr>)"

text \<open>
  The ratio behind the progress bar, \<open>progress.completed / progress.total\<close>, which is rendered
  when a user is signed in and \<open>progress.total > 0\<close>. Both counts are small integers, for
  which the quotient of the numbers compares with 0 and 1 as the quotient of the reals does.
\<close>

definition progress_ratio :: "category_progress \<Rightarrow> real" where
  "progress_ratio progress = real (completed progress) / real (total_quizzes progress)"

definition handleStartQuiz :: "education_state \<Rightarrow> string \<Rightarrow> education_state" where
  "handleStartQuiz st categoryId =
     st\<lparr> selectedCategory := Some categoryId, currentQuizIndex := 0,
         selectedAnswer := None, showResult := False \<rparr>"

text \<open>Decimal numerals, as a template literal prints a number.\<close>

fun show_nat :: "nat \<Rightarrow> string" where
  "show_nat n =
     (if n < 10 then [char_of (48 + n)] else show_nat (n div 10) @ [char_of (48 + n mod 10)])"

definition show_int :: "int \<Rightarrow> string" where
  "show_int i = (if i < 0 then ''-'' @ show_nat (nat (- i)) else show_nat (nat i))"

text \<open>The row \<open>handleAnswer\<close> inserts into \<open>user_quiz_progress\<close>.\<close>

record progress_insert =
  ins_user_id :: string
  ins_quiz_id :: string
  ins_is_correct :: bool

text \<open>
  A call of \<open>handleAnswer\<close> that issued its insert is suspended at the \<open>await\<close>. What it
  holds for the time it resumes: the row it asked to insert (the current quiz's id and
  \<open>isCorrect\<close>) and the notification it will show.
\<close>

record pending_answer =
  pa_insert :: progress_insert
  pa_feedback :: toast

record answer_result =
  ar_state :: education_state
  ar_awaiting :: "pending_answer list"
  ar_toasts :: "toast list"
  ar_thrown :: bool

text \<open>
  \<open>getCategoryQuizzes(selectedCategory!)\<close>: no quiz has the category \<open>null\<close>.
\<close>

definition selected_quizzes :: "education_state \<Rightarrow> Quiz list" where
  "selected_quizzes st =
     (case selectedCategory st of None \<Rightarrow> [] | Some c \<Rightarrow> getCategoryQuizzes st c)"

text \<open>
  \<open>handleAnswer\<close> up to the point where it returns or is suspended, given the signed-in
  user's id (if any) and the state of the render it is called in. It is suspended
  (\<open>ar_awaiting\<close>) exactly when it issues the insert: the answered-check reads the progress
  list of that render, and the list is not extended before the insert has returned. Without
  an insert it shows its notification at once. When there is no current quiz the read of
  \<open>correct_answer\<close> throws, after the two state updates (\<open>ar_thrown\<close>). The titles of the two
  notifications are given without the emoji that leads them.
\<close>

definition handleAnswer :: "string option \<Rightarrow> education_state \<Rightarrow> int \<Rightarrow> answer_result" where
  "handleAnswer user st answerIndex =
     (if showResult st then
        \<lparr> ar_state = st, ar_awaiting = [], ar_toasts = [], ar_thrown = False \<rparr>
      else
        (let st1 = st\<lparr>selectedAnswer := Some answerIndex, showResult := True\<rparr> in
         case at_index (selected_quizzes st) (int (currentQuizIndex st)) of
           None \<Rightarrow> \<lparr> ar_state = st1, ar_awaiting = [], ar_toasts = [], ar_thrown = True \<rparr>
         | Some currentQuiz \<Rightarrow>
             (let isCorrect = (answerIndex = correct_answer currentQuiz);
                  alreadyAnswered = list_ex (\<lambda>p. quiz_id p = quiz_ident currentQuiz) (userProgress st);
                  feedback =
                    (if isCorrect then
                       \<lparr> toast_title = ''Correct!'',
                         toast_description = ''You earned '' @ show_int (quiz_points currentQuiz) @ '' points!'',
                         destructive = False \<rparr>
                     else
                       \<lparr> toast_title = ''Incorrect'', toast_description = ''Better luck next time!'',
                         destructive = True \<rparr>) in
              (case user of
                 None \<Rightarrow> \<lparr> ar_state = st1, ar_awaiting = [], ar_toasts = [feedback], ar_thrown = False \<rparr>
               | Some uid \<Rightarrow>
                   if \<not> alreadyAnswered then
                     \<lparr> ar_state = st1,
                       ar_awaiting =
                         [\<lparr> pa_insert = \<lparr> ins_user_id = uid, ins_quiz_id = quiz_ident currentQuiz,
                                          ins_is_correct = isCorrect \<rparr>,
                            pa_feedback = feedback \<rparr>],
                       ar_toasts = [], ar_thrown = False \<rparr>
                   else
                     \<lparr> ar_state = st1, ar_awaiting = [], ar_toasts = [feedback], ar_thrown = False \<rparr>))))"

text \<open>
  The rest of a suspended call, run when its insert has returned (the result of the insert is
  not looked at): \<open>setUserProgress(prev => [...prev, { quiz_id, is_correct }])\<close> on the state
  of that moment, then the notification.
\<close>

definition handleAnswer_resumed :: "education_state \<Rightarrow> pending_answer \<Rightarrow> education_state \<times> toast list" where
  "handleAnswer_resumed st p =
     (st\<lparr>userProgress := userProgress st @
            [\<lparr> quiz_id = ins_quiz_id (pa_insert p), is_correct = ins_is_correct (pa_insert p) \<rparr>]\<rparr>,
      [pa_feedback p])"

text \<open>
  \<open>handleNext\<close>; the flag tells that it called \<open>fetchData()\<close>, which fetches the progress anew.
\<close>

definition handleNext :: "education_state \<Rightarrow> education_state \<times> bool" where
  "handleNext st =
     (let categoryQuizzes = selected_quizzes st in
      if int (currentQuizIndex st) < int (length categoryQuizzes) - 1 then
        (st\<lparr> currentQuizIndex := currentQuizIndex st + 1, selectedAnswer := None,
             showResult := False \<rparr>, False)
      else (st\<lparr>selectedCategory := None\<rparr>, True))"

text \<open>The buttons "Exit Quiz" and "Go Back": \<open>setSelectedCategory(null)\<close>.\<close>

definition exitQuiz :: "education_state \<Rightarrow> education_state" where
  "exitQuiz st = st\<lparr>selectedCategory := None\<rparr>"






text \<open>The number of rows of the table for a user and a quiz.\<close>

definition records_for :: "progress_insert list \<Rightarrow> string \<Rightarrow> string \<Rightarrow> nat" where
  "records_for table uid q =
     length (filter (\<lambda>row. ins_user_id row = uid \<and> ins_quiz_id row = q) table)"

text \<open>
  The entry of the local progress list that a resumed call appends for its insert; what holds
  of every session that started from the progress list \<open>fetched\<close> (the local list begins with
  the fetched one, and each issued insert is the signed-in user's and for a quiz without a
  fetched record); and what holds in addition of a serialized session that started from the
  table \<open>table0\<close>: the local list, followed by the entry of the suspended call if there is one,
  is the fetched list followed by the entries of the issued inserts; no two issued inserts are
  for the same quiz; and the table has gained no row that was not issued.
\<close>

definition progress_of :: "progress_insert \<Rightarrow> UserProgress" where
  "progress_of i = \<lparr> quiz_id = ins_quiz_id i, is_correct = ins_is_correct i \<rparr>"



section \<open>Contact form\<close>

record contact_form =
  name :: string
  email :: string
  subject :: string
  message :: string

record contact_state =
  formData_contact :: contact_form
  errors :: "string \<rightharpoonup> string"
  loading_contact :: bool
  submitted_contact :: bool

text \<open>An issue of a failed \<open>safeParse\<close>: \<open>err.path[0]\<close> and \<open>err.message\<close>.\<close>

record issue =
  issue_path :: string
  issue_message :: string

text \<open>The validation library's message for a \<open>max\<close> check given without a message.\<close>

definition too_big :: "nat \<Rightarrow> string" where
  "too_big n = ''String must contain at most '' @ show_nat n @ '' character(s)''"

text \<open>
  \<open>contactSchema.safeParse(formData)\<close>: the issues of the four fields in the order the schema
  declares them, every check of a field run in the order it is chained. The parse succeeds
  when the list is empty. What \<open>.email()\<close> accepts is the validation library's pattern, a
  parameter here.
\<close>

definition contactSchema_issues :: "(string \<Rightarrow> bool) \<Rightarrow> contact_form \<Rightarrow> issue list" where
  "contactSchema_issues is_email fd =
     (if length (name fd) < 2
      then [\<lparr> issue_path = ''name'', issue_message = ''Name must be at least 2 characters'' \<rparr>] else []) @
     (if length (name fd) > 100
      then [\<lparr> issue_path = ''name'', issue_message = too_big 100 \<rparr>] else []) @
     (if \<not> is_email (email fd)
      then [\<lparr> issue_path = ''email'', issue_message = ''Please enter a valid email address'' \<rparr>] else []) @
     (if length (email fd) > 255
      then [\<lparr> issue_path = ''email'', issue_message = too_big 255 \<rparr>] else []) @
     (if length (subject fd) < 5
      then [\<lparr> issue_path = ''subject'', issue_message = ''Subject must be at least 5 characters'' \<rparr>] else []) @
     (if length (subject fd) > 200
      then [\<lparr> issue_path = ''subject'', issue_message = too_big 200 \<rparr>] else []) @
     (if length (message fd) < 10
      then [\<lparr> issue_path = ''message'', issue_message = ''Message must be at least 10 characters'' \<rparr>] else []) @
     (if length (message fd) > 1000
      then [\<lparr> issue_path = ''message'', issue_message = too_big 1000 \<rparr>] else [])"

text \<open>
  \<open>result.error.errors.forEach(err => { if (err.path[0]) fieldErrors[err.path[0]] = err.message })\<close>
\<close>

definition fieldErrors :: "issue list \<Rightarrow> (string \<rightharpoonup> string)" where
  "fieldErrors issues =
     foldl (\<lambda>m err. if issue_path err \<noteq> [] then m(issue_path err \<mapsto> issue_message err) else m)
       Map.empty issues"

record contact_result =
  cr_state :: contact_state
  cr_inserts :: "contact_form list"
  cr_toasts :: "toast list"

text \<open>
  The contact form's \<open>handleSubmit\<close>, given the error of the insert (if any). \<open>cr_inserts\<close> lists
  the rows it asked \<open>contact_messages\<close> to insert.
\<close>

definition handleSubmit_contact ::
  "(string \<Rightarrow> bool) \<Rightarrow> contact_state \<Rightarrow> string option \<Rightarrow> contact_result" where
  "handleSubmit_contact is_email st insert_error =
     (let issues = contactSchema_issues is_email (formData_contact st) in
      if issues \<noteq> [] then
        \<lparr> cr_state = st\<lparr>errors := fieldErrors issues\<rparr>, cr_inserts = [], cr_toasts = [] \<rparr>
      else
        (let row = \<lparr> name = name (formData_contact st), email = email (formData_contact st),
                     subject = subject (formData_contact st),
                     message = message (formData_contact st) \<rparr> in
         case insert_error of
           Some e \<Rightarrow>
             \<lparr> cr_state = st\<lparr>errors := Map.empty, loading_contact := False\<rparr>,
               cr_inserts = [row],
               cr_toasts = [\<lparr> toast_title = ''Failed to send'',
                              toast_description = ''Please try again later.'',
                              destructive = True \<rparr>] \<rparr>
         | None \<Rightarrow>
             \<lparr> cr_state = st\<lparr>errors := Map.empty, submitted_contact := True, loading_contact := False\<rparr>,
               cr_inserts = [row],
               cr_toasts = [\<lparr> toast_title = ''Message sent!'',
                              toast_description = ''We will get back to you soon.'',
                              destructive = False \<rparr>] \<rparr>))"

text \<open>The schema in the words of the specification: every field within its lengths, the email valid.\<close>

definition schema_passes :: "(string \<Rightarrow> bool) \<Rightarrow> contact_form \<Rightarrow> bool" where
  "schema_passes is_email fd =
     (2 \<le> length (name fd) \<and> length (name fd) \<le> 100 \<and>
      is_email (email fd) \<and> length (email fd) \<le> 255 \<and>
      5 \<le> length (subject fd) \<and> length (subject fd) \<le> 200 \<and>
      10 \<le> length (message fd) \<and> length (message fd) \<le> 1000)"

section \<open>Report submission\<close>

record File =
  file_name :: string
  file_content :: string

record formData =
  fd_category :: string
  fd_severity :: string
  fd_title :: string
  fd_description :: string
  fd_address :: string
  fd_city :: string
  fd_state :: string
  fd_pincode :: string
  latitude :: "real option"
  longitude :: "real option"

record report_state =
  formData :: formData
  images :: "File list"
  imagePreviewUrls :: "string list"
  loading_report :: bool
  submitted_report :: bool
  reportNumber :: string

text \<open>
  \<open>xs.slice(0, e)\<close>: a negative end counts from the end of the array.
\<close>

definition slice0 :: "'a list \<Rightarrow> int \<Rightarrow> 'a list" where
  "slice0 xs e = (if e < 0 then take (nat (int (length xs) + e)) xs else take (nat e) xs)"

text \<open>
  \<open>handleImageUpload\<close>, given \<open>e.target.files\<close> and what \<open>readAsDataURL\<close> makes of a file; the
  previews are appended as the readers finish, taken here in the order of the files.
\<close>

definition handleImageUpload ::
  "(File \<Rightarrow> string) \<Rightarrow> report_state \<Rightarrow> File list option \<Rightarrow> report_state" where
  "handleImageUpload readAsDataURL st files =
     (case files of
        None \<Rightarrow> st
      | Some fs \<Rightarrow>
          (let newFiles = slice0 fs (5 - int (length (images st))) in
           st\<lparr> images := images st @ newFiles,
               imagePreviewUrls := imagePreviewUrls st @ map readAsDataURL newFiles \<rparr>))"

text \<open>\<open>xs.filter((_, i) => i !== index)\<close>\<close>

definition drop_index :: "'a list \<Rightarrow> int \<Rightarrow> 'a list" where
  "drop_index xs index = map fst (filter (\<lambda>(x, i). int i \<noteq> index) (zip xs [0 ..< length xs]))"

definition removeImage :: "report_state \<Rightarrow> int \<Rightarrow> report_state" where
  "removeImage st index =
     st\<lparr> images := drop_index (images st) index,
         imagePreviewUrls := drop_index (imagePreviewUrls st) index \<rparr>"

text \<open>
  The content store as \<open>handleSubmit\<close> uses it: the clock read at each turn of the upload loop,
  the error of an upload (if any) and the public URL of a path.
\<close>

record storage =
  date_now :: "nat \<Rightarrow> nat"
  upload :: "string \<Rightarrow> File \<Rightarrow> string option"
  getPublicUrl :: "string \<Rightarrow> string"

text \<open>\<open>`${user!.id}/${Date.now()}-${image.name}`\<close>\<close>

definition make_fileName :: "string \<Rightarrow> nat \<Rightarrow> File \<Rightarrow> string" where
  "make_fileName uid now img = uid @ ''/'' @ show_nat now @ ''-'' @ file_name img"

text \<open>
  The loop \<open>for (const image of images)\<close>, at turn \<open>k\<close> with the URLs pushed so far: each image
  is uploaded, and the public URL is pushed when the upload reports no error.
\<close>

fun upload_images :: "storage \<Rightarrow> string \<Rightarrow> nat \<Rightarrow> File list \<Rightarrow> string list \<Rightarrow> string list" where
  "upload_images store uid k [] imageUrls = imageUrls"
| "upload_images store uid k (img # rest) imageUrls =
     (let fileName = make_fileName uid (date_now store k) img in
      case upload store fileName img of
        None \<Rightarrow> upload_images store uid (k + 1) rest (imageUrls @ [getPublicUrl store fileName])
      | Some uploadError \<Rightarrow> upload_images store uid (k + 1) rest imageUrls)"

text \<open>The row \<open>handleSubmit\<close> asks \<open>reports\<close> to insert; it names no status.\<close>

record report_insert =
  new_user_id :: string
  new_report_number :: string
  new_category :: string
  new_severity :: string
  new_title :: string
  new_description :: string
  new_address :: string
  new_city :: string
  new_state :: string
  new_pincode :: string
  new_latitude :: "real option"
  new_longitude :: "real option"
  new_image_urls :: "string list"

record submit_result =
  sb_state :: report_state
  sb_inserts :: "report_insert list"
  sb_toasts :: "toast list"

text \<open>The message of the \<open>TypeError\<close> a property read from \<open>null\<close> throws.\<close>

definition TypeError_message :: string where
  "TypeError_message = ''Cannot read properties of null''"

definition submission_failed :: "string \<Rightarrow> toast" where
  "submission_failed msg =
     \<lparr> toast_title = ''Submission failed'',
       toast_description = (if msg \<noteq> [] then msg else ''Please try again later.''),
       destructive = True \<rparr>"

text \<open>
  The report form's \<open>handleSubmit\<close>, given the content store, the signed-in user's id (if any)
  and what the insert (\<open>.select('report_number').single()\<close>) resolved to. Without a user the
  first read of \<open>user!.id\<close> throws before any request is made. An upload error is not thrown:
  the loop goes on and the insert is issued. \<open>sb_inserts\<close> lists the rows it asked for.
\<close>

definition handleSubmit_report ::
  "storage \<Rightarrow> string option \<Rightarrow> report_state \<Rightarrow> string response \<Rightarrow> submit_result" where
  "handleSubmit_report store user st resp =
     (let fd = formData st in
      if fd_category fd = [] \<or> fd_title fd = [] \<or> fd_description fd = [] then
        \<lparr> sb_state = st, sb_inserts = [],
          sb_toasts = [\<lparr> toast_title = ''Missing information'',
                         toast_description = ''Please fill in all required fields.'',
                         destructive = True \<rparr>] \<rparr>
      else
        (case user of
           None \<Rightarrow>
             \<lparr> sb_state = st\<lparr>loading_report := False\<rparr>, sb_inserts = [],
               sb_toasts = [submission_failed TypeError_message] \<rparr>
         | Some uid \<Rightarrow>
             (let imageUrls = upload_images store uid 0 (images st) [];
                  row = \<lparr> new_user_id = uid, new_report_number = ''TEMP'',
                          new_category = fd_category fd, new_severity = fd_severity fd,
                          new_title = fd_title fd, new_description = fd_description fd,
                          new_address = fd_address fd, new_city = fd_city fd,
                          new_state = fd_state fd, new_pincode = fd_pincode fd,
                          new_latitude = latitude fd, new_longitude = longitude fd,
                          new_image_urls = imageUrls \<rparr> in
              case error resp of
                Some msg \<Rightarrow>
                  \<lparr> sb_state = st\<lparr>loading_report := False\<rparr>, sb_inserts = [row],
                    sb_toasts = [submission_failed msg] \<rparr>
              | None \<Rightarrow>
                  (case data resp of
                     None \<Rightarrow>
                       \<lparr> sb_state = st\<lparr>loading_report := False\<rparr>, sb_inserts = [row],
                         sb_toasts = [submission_failed TypeError_message] \<rparr>
                   | Some number \<Rightarrow>
                       \<lparr> sb_state = st\<lparr> reportNumber := number, submitted_report := True,
                                        loading_report := False \<rparr>,
                         sb_inserts = [row],
                         sb_toasts = [\<lparr> toast_title = ''Report submitted!'',
                                        toast_description = ''Your report ID is '' @ number,
                                        destructive = False \<rparr>] \<rparr>))))"

text \<open>
  Modelled from the spec: the row the hosted \<open>reports\<close> table creates for an insert, which is
  not under src/ ("created on submission with status submitted", the tracking number assigned
  on the database side). The insert names no status, assignee, remarks or resolution time; the
  table supplies the status \<open>submitted\<close> and leaves the others empty. The identifier, the
  tracking number and the time of creation are the table's to choose.
\<close>

definition created_row :: "string \<Rightarrow> string \<Rightarrow> string \<Rightarrow> report_insert \<Rightarrow> Report" where
  "created_row ident number now row =
     \<lparr> id = ident, report_number = number, title = new_title row,
       description = new_description row, category = new_category row,
       severity = new_severity row, status = Submitted, address = new_address row,
       city = Some (new_city row), state = new_state row, assigned_to = None,
       authority_remarks = None, image_urls = Some (new_image_urls row),
       created_at = now, updated_at = now, resolved_at = None \<rparr>"

text \<open>
  The states of the image picker: from no image, any sequence of file selections and removals.
\<close>

datatype image_event = Select "File list option" | Remove int

fun pick_images :: "(File \<Rightarrow> string) \<Rightarrow> report_state \<Rightarrow> image_event list \<Rightarrow> report_state" where
  "pick_images readAsDataURL st [] = st"
| "pick_images readAsDataURL st (Select files # es) =
     pick_images readAsDataURL (handleImageUpload readAsDataURL st files) es"
| "pick_images readAsDataURL st (Remove index # es) =
     pick_images readAsDataURL (removeImage st index) es"

text \<open>
  The uploads of a submission that succeed, in the words of the specification: the images, each with
  the turn of the loop it is uploaded at, whose upload reports no error.
\<close>

definition successful_uploads :: "storage \<Rightarrow> string \<Rightarrow> File list \<Rightarrow> (File \<times> nat) list" where
  "successful_uploads store uid imgs =
     filter (\<lambda>(img, k). upload store (make_fileName uid (date_now store k) img) img = None)
       (zip imgs [0 ..< length imgs])"

section \<open>Example data\<close>

text \<open>Small concrete values, on which the properties below are evaluated.\<close>

definition example_report :: "string \<Rightarrow> ReportStatus \<Rightarrow> Report" where
  "example_report number st =
     \<lparr> id = ''id-'' @ number, report_number = number, title = ''Pothole on MG Road'',
       description = ''A deep pothole near the bus stop'', category = ''pothole'',
       severity = ''high'', status = st, address = ''MG Road'', city = Some ''Pune'',
       state = ''Maharashtra'', assigned_to = None, authority_remarks = None,
       image_urls = Some [], created_at = ''2024-01-01T10:00:00Z'',
       updated_at = ''2024-01-01T10:00:00Z'', resolved_at = None \<rparr>"

definition example_admin :: "Report option \<Rightarrow> updateData \<Rightarrow> admin_state" where
  "example_admin sel ud =
     \<lparr> reports = [], stats = \<lparr> total = 0, submitted = 0, in_progress = 0, resolved = 0 \<rparr>,
       loading = True, searchQuery = [], categoryFilter = ''all'', statusFilter = ''all'',
       selectedReport = sel, updateData = ud, updating = False \<rparr>"

definition example_track :: "string \<Rightarrow> track_state" where
  "example_track typed =
     \<lparr> searchId = typed, report = Some (example_report ''CIV-1'' Assigned), userReports = [],
       loading_track = True, loadingUserReports = False \<rparr>"



definition example_quiz :: "string \<Rightarrow> string \<Rightarrow> Quiz" where
  "example_quiz ident cat =
     \<lparr> quiz_ident = ident, question = ''Which side of the road do vehicles keep to?'',
       options = [''Left'', ''Right''], correct_answer = 0, quiz_points = 10, category_id = cat \<rparr>"

definition example_education :: "Quiz list \<Rightarrow> UserProgress list \<Rightarrow> education_state" where
  "example_education qs ps =
     \<lparr> quizzes = qs, userProgress = ps, selectedCategory = None, currentQuizIndex = 0,
       selectedAnswer = None, showResult = False \<rparr>"

definition example_contact :: "contact_form \<Rightarrow> contact_state" where
  "example_contact fd =
     \<lparr> formData_contact = fd, errors = Map.empty, loading_contact = False,
       submitted_contact = False \<rparr>"

definition example_form :: report_state where
  "example_form =
     \<lparr> formData =
         \<lparr> fd_category = ''pothole'', fd_severity = ''medium'', fd_title = ''Pothole on MG Road'',
           fd_description = ''A deep pothole near the bus stop'', fd_address = [], fd_city = [],
           fd_state = [], fd_pincode = [], latitude = None, longitude = None \<rparr>,
       images = [], imagePreviewUrls = [], loading_report = False, submitted_report = False,
       reportNumber = [] \<rparr>"

definition example_file :: "string \<Rightarrow> File" where
  "example_file n = \<lparr> file_name = n, file_content = ''...'' \<rparr>"

text \<open>A content store that refuses the file \<open>a.png\<close> and takes every other.\<close>

definition example_store :: storage where
  "example_store =
     \<lparr> date_now = (\<lambda>k. 1700000000000 + k),
       upload = (\<lambda>path f. if file_name f = ''a.png'' then Some ''Payload too large'' else None),
       getPublicUrl = (\<lambda>path. ''https://cdn.example/'' @ path) \<rparr>"

section \<open>Report tracking: properties\<close>

lemma status_of_str_status_str: "status_of_str (status_str s) = Some s"
  by (cases s) (simp_all add: status_of_str_def)

lemma getStatusIndex_values:
  "getStatusIndex Submitted = 0" "getStatusIndex In_review = 1" "getStatusIndex Assigned = 2"
  "getStatusIndex In_progress = 3" "getStatusIndex Resolved = 4" "getStatusIndex Rejected = - 1"
  by (simp_all add: getStatusIndex_def indexOf_def statusOrder_def)

lemma upt_5: "[0 ..< 5] = [0, 1, 2, 3, 4]"
  by (simp add: upt_rec)

text \<open>
  C7. The timeline has exactly the five steps submitted, in_review, assigned, in_progress,
  resolved, in this order; the step at position \<open>i\<close> is marked completed exactly when the index
  of the report's status in that sequence is at least \<open>i\<close>, the indices being 0 for submitted,
  1 for in_review, 2 for assigned, 3 for in_progress, 4 for resolved and \<open>-1\<close> for rejected: a
  submitted report has the first step completed, an in_review report the first two, and so on
  to a resolved report, which has all five; a rejected report has no completed (and no
  current) step, no step of the timeline is the rejected one, and rejected shows as the badge
  text only.
\<close>

theorem timeline_five_steps:
  "map step_status (timeline r) = [Submitted, In_review, Assigned, In_progress, Resolved]
   \<and> map isCompleted (timeline r) = map (\<lambda>i. getStatusIndex (status r) \<ge> int i) [0 ..< 5]
   \<and> getStatusIndex Submitted = 0 \<and> getStatusIndex In_review = 1
   \<and> getStatusIndex Assigned = 2 \<and> getStatusIndex In_progress = 3
   \<and> getStatusIndex Resolved = 4 \<and> getStatusIndex Rejected = - 1
   \<and> map isCompleted (timeline (r\<lparr>status := Submitted\<rparr>)) = [True, False, False, False, False]
   \<and> map isCompleted (timeline (r\<lparr>status := In_review\<rparr>)) = [True, True, False, False, False]
   \<and> map isCompleted (timeline (r\<lparr>status := Assigned\<rparr>)) = [True, True, True, False, False]
   \<and> map isCompleted (timeline (r\<lparr>status := In_progress\<rparr>)) = [True, True, True, True, False]
   \<and> map isCompleted (timeline (r\<lparr>status := Resolved\<rparr>)) = [True, True, True, True, True]
   \<and> map isCompleted (timeline (r\<lparr>status := Rejected\<rparr>)) = [False, False, False, False, False]
   \<and> map isCurrent (timeline (r\<lparr>status := Rejected\<rparr>)) = [False, False, False, False, False]
   \<and> Rejected \<notin> set (map step_status (timeline r))
   \<and> status_badge (r\<lparr>status := Rejected\<rparr>) = ''Rejected''"
  by (simp add: timeline_def statusOrder_def upt_5 getStatusIndex_values status_badge_def)

section \<open>Admin dashboard: properties\<close>

lemma str_includes_Nil: "str_includes s [] = True"
  by (cases s) simp_all

text \<open>
  C10. With the empty search string the client-side filter returns the fetched list as it is;
  for every search string the filtered list is a subsequence of the fetched list; and for a
  report whose city is \<open>null\<close> the filter's test is evaluated from the title and the tracking
  number alone.
\<close>

theorem filteredReports_subseq:
  "filteredReports rs [] = rs
   \<and> subseq (filteredReports rs q) rs
   \<and> search_matches q (r\<lparr>city := None\<rparr>) =
       (str_includes (toLowerCase (title r)) (toLowerCase q) \<or>
        str_includes (toLowerCase (report_number r)) (toLowerCase q))"
  by (simp add: filteredReports_def search_matches_def toLowerCase_def str_includes_Nil)

lemma status_partition:
  "length rs =
     length (filter (\<lambda>r. status r = Submitted) rs) +
     length (filter (\<lambda>r. status r \<in> {In_review, Assigned, In_progress}) rs) +
     length (filter (\<lambda>r. status r = Resolved) rs) +
     length (filter (\<lambda>r. status r = Rejected) rs)"
proof (induction rs)
  case Nil
  show ?case by simp
next
  case (Cons r rs)
  then show ?case by (cases "status r") simp_all
qed

text \<open>
  C4. When neither filter is active the query carries no filter, and for the list it fetched
  the four tiles are: the length of the list; the number of reports with status submitted;
  the number with status in_review, assigned or in_progress; the number with status resolved.
  The three buckets and the rejected reports add up to the total, so a rejected report is
  counted in the total and in no other tile.
\<close>

theorem fetchReports_stats_partition:
  assumes "categoryFilter st = ''all''" and "statusFilter st = ''all''"
    and "resp = \<lparr> data = d, error = None \<rparr>"
    and "rows = (case d of None \<Rightarrow> [] | Some x \<Rightarrow> x)"
  shows "fetchReports_query st = \<lparr> eq_category = None, eq_status = None \<rparr>
    \<and> reports (fetchReports st resp) = rows
    \<and> total (stats (fetchReports st resp)) = length rows
    \<and> submitted (stats (fetchReports st resp)) = length (filter (\<lambda>r. status r = Submitted) rows)
    \<and> in_progress (stats (fetchReports st resp)) =
        length (filter (\<lambda>r. status r \<in> {In_review, Assigned, In_progress}) rows)
    \<and> resolved (stats (fetchReports st resp)) = length (filter (\<lambda>r. status r = Resolved) rows)
    \<and> total (stats (fetchReports st resp)) =
        submitted (stats (fetchReports st resp)) + in_progress (stats (fetchReports st resp)) +
        resolved (stats (fetchReports st resp)) + length (filter (\<lambda>r. status r = Rejected) rows)"
  using assms status_partition [of rows]
  by (simp add: fetchReports_query_def fetchReports_def Let_def)

theorem fetchReports_stats_partition_witness:
  "stats (fetchReports (example_admin None \<lparr> ud_status = [], ud_assigned_to = [], ud_remarks = [] \<rparr>)
       \<lparr> data = Some [example_report ''CIV-1'' Submitted, example_report ''CIV-2'' Assigned,
                       example_report ''CIV-3'' Rejected, example_report ''CIV-4'' In_review],
         error = None \<rparr>)
     = \<lparr> total = 4, submitted = 1, in_progress = 2, resolved = 0 \<rparr>
   \<and> fetchReports_query (example_admin None \<lparr> ud_status = [], ud_assigned_to = [], ud_remarks = [] \<rparr>)
     = \<lparr> eq_category = None, eq_status = None \<rparr>"
proof -
  let ?st = "example_admin None \<lparr> ud_status = [], ud_assigned_to = [], ud_remarks = [] \<rparr>"
  have c: "categoryFilter ?st = ''all''" and s: "statusFilter ?st = ''all''"
    by (simp_all add: example_admin_def)
  from fetchReports_stats_partition [OF c s refl refl,
      of "Some [example_report ''CIV-1'' Submitted, example_report ''CIV-2'' Assigned,
                example_report ''CIV-3'' Rejected, example_report ''CIV-4'' In_review]"]
  show ?thesis by (simp add: example_report_def)
qed

lemma set_column_frame: "set_column kv r = Some r' \<Longrightarrow> unchanged r r'"
  unfolding set_column_def unchanged_def
  by (auto split: if_splits)

lemma apply_updates_frame: "apply_updates kvs r = Some r' \<Longrightarrow> unchanged r r'"
proof (induction kvs arbitrary: r)
  case Nil
  then show ?case by (simp add: unchanged_def)
next
  case (Cons kv kvs)
  then obtain r1 where s: "set_column kv r = Some r1" and a: "apply_updates kvs r1 = Some r'"
    by (auto split: option.splits)
  from set_column_frame [OF s] Cons.IH [OF a] show ?case
    by (simp add: unchanged_def)
qed

lemma build_updates_keys:
  "distinct (map fst (build_updates ud now))"
  "set (map fst (build_updates ud now)) \<subseteq> {''status'', ''assigned_to'', ''authority_remarks'', ''resolved_at''}"
  by (auto simp: build_updates_def)

lemma build_updates_lookup:
  "map_of (build_updates ud now) ''status'' = (if ud_status ud \<noteq> [] then Some (ud_status ud) else None)"
  "map_of (build_updates ud now) ''assigned_to'' = (if ud_assigned_to ud \<noteq> [] then Some (ud_assigned_to ud) else None)"
  "map_of (build_updates ud now) ''authority_remarks'' = (if ud_remarks ud \<noteq> [] then Some (ud_remarks ud) else None)"
  "map_of (build_updates ud now) ''resolved_at'' = (if ud_status ud = ''resolved'' then Some now else None)"
  by (auto simp: build_updates_def)

lemma handleUpdateReport_request:
  "selectedReport st = Some sel \<Longrightarrow>
   ur_request (handleUpdateReport st now update_error refetched) =
     Some \<lparr> req_updates = build_updates (updateData st) now, req_id = id sel \<rparr>"
  by (simp add: handleUpdateReport_def Let_def split: option.splits)

text \<open>
  C8. With a report selected, the handler issues one update, for that report's id. The update
  object has the property status, assigned_to or authority_remarks exactly when the form's
  value for it is not empty, with that value; it has resolved_at (the current time) exactly
  when the selected status is resolved; it has no other property. Applied to a row, it leaves
  every other column of the row as it was.
\<close>

theorem handleUpdateReport_partial:
  assumes "selectedReport st = Some sel"
    and "res = handleUpdateReport st now update_error refetched"
    and "ud = updateData st"
  shows "\<exists>req. ur_request res = Some req \<and> req_id req = id sel
     \<and> distinct (map fst (req_updates req))
     \<and> set (map fst (req_updates req)) \<subseteq> {''status'', ''assigned_to'', ''authority_remarks'', ''resolved_at''}
     \<and> map_of (req_updates req) ''status'' = (if ud_status ud \<noteq> [] then Some (ud_status ud) else None)
     \<and> map_of (req_updates req) ''assigned_to'' = (if ud_assigned_to ud \<noteq> [] then Some (ud_assigned_to ud) else None)
     \<and> map_of (req_updates req) ''authority_remarks'' = (if ud_remarks ud \<noteq> [] then Some (ud_remarks ud) else None)
     \<and> map_of (req_updates req) ''resolved_at'' = (if ud_status ud = ''resolved'' then Some now else None)
     \<and> (\<forall>r r'. apply_updates (req_updates req) r = Some r' \<longrightarrow> unchanged r r')"
proof -
  let ?req = "\<lparr> req_updates = build_updates ud now, req_id = id sel \<rparr>"
  have "ur_request res = Some ?req"
    using assms handleUpdateReport_request by simp
  moreover have "\<forall>r r'. apply_updates (req_updates ?req) r = Some r' \<longrightarrow> unchanged r r'"
    using apply_updates_frame by simp
  ultimately show ?thesis
    using build_updates_keys [of ud now] build_updates_lookup [of ud now]
    by (intro exI [of _ ?req]) simp
qed

theorem handleUpdateReport_partial_witness:
  "\<exists>req. ur_request
       (handleUpdateReport
          (example_admin (Some (example_report ''CIV-1'' Assigned))
             \<lparr> ud_status = ''resolved'', ud_assigned_to = ''Roads department'', ud_remarks = [] \<rparr>)
          ''2024-02-01T09:00:00.000Z'' None \<lparr> data = Some [], error = None \<rparr>) = Some req
     \<and> req_id req = ''id-CIV-1''
     \<and> map_of (req_updates req) ''status'' = Some ''resolved''
     \<and> map_of (req_updates req) ''assigned_to'' = Some ''Roads department''
     \<and> map_of (req_updates req) ''authority_remarks'' = None
     \<and> map_of (req_updates req) ''resolved_at'' = Some ''2024-02-01T09:00:00.000Z''"
proof -
  let ?sel = "example_report ''CIV-1'' Assigned"
  let ?ud = "\<lparr> ud_status = ''resolved'', ud_assigned_to = ''Roads department'', ud_remarks = [] \<rparr>"
  have sel: "selectedReport (example_admin (Some ?sel) ?ud) = Some ?sel"
    and ud: "?ud = updateData (example_admin (Some ?sel) ?ud)"
    by (simp_all add: example_admin_def)
  from handleUpdateReport_partial [OF sel refl ud,
      of "''2024-02-01T09:00:00.000Z''" None "\<lparr> data = Some [], error = None \<rparr>"]
  show ?thesis by (auto simp: example_report_def)
qed

section \<open>Report tracking: lookup properties\<close>

lemma maybeSingle_data:
  "data (maybeSingle rows) = Some r \<Longrightarrow> rows = [r]"
  by (auto simp: maybeSingle_def split: list.splits)

text \<open>
  C5. A lookup of a tracking number that no row of the table carries ends normally: the
  displayed report is set to none, the loading flag is cleared, the notification is "Report
  not found", and one request was made. Whatever the table holds, a lookup that hands over a
  row hands over the single row with that tracking number, and a search makes at most one
  request.
\<close>

theorem searchReport_not_found:
  assumes "reportId = search_reportId st ident" and "reportId \<noteq> []"
    and "\<forall>r \<in> set table. report_number r \<noteq> reportId"
    and "res = searchReport st ident (reports_lookup None table)"
  shows "report (sr_state res) = None
     \<and> loading_track (sr_state res) = False
     \<and> sr_toasts res =
         [\<lparr> toast_title = ''Report not found'',
            toast_description = ''No report found with this ID. Please check and try again.'',
            destructive = True \<rparr>]
     \<and> sr_lookups res = [reportId]
     \<and> (\<forall>failure tbl rid r. data (reports_lookup failure tbl rid) = Some r \<longrightarrow>
           filter (\<lambda>x. report_number x = rid) tbl = [r])
     \<and> (\<forall>backend. length (sr_lookups (searchReport st ident backend)) \<le> 1)"
proof -
  have "filter (\<lambda>r. report_number r = reportId) table = []"
    using assms(3) by (simp add: filter_empty_conv)
  then have "reports_lookup None table reportId = \<lparr> data = None, error = None \<rparr>"
    by (simp add: reports_lookup_def maybeSingle_def)
  then have a: "report (sr_state res) = None \<and> loading_track (sr_state res) = False
     \<and> sr_toasts res =
         [\<lparr> toast_title = ''Report not found'',
            toast_description = ''No report found with this ID. Please check and try again.'',
            destructive = True \<rparr>]
     \<and> sr_lookups res = [reportId]"
    using assms(1,2,4) by (simp add: searchReport_def Let_def)
  have b: "\<forall>failure tbl rid r. data (reports_lookup failure tbl rid) = Some r \<longrightarrow>
           filter (\<lambda>x. report_number x = rid) tbl = [r]"
    by (auto simp: reports_lookup_def dest: maybeSingle_data split: option.splits)
  have c: "\<forall>backend. length (sr_lookups (searchReport st ident backend)) \<le> 1"
    by (simp add: searchReport_def Let_def split: option.splits)
  from a b c show ?thesis by simp
qed

theorem searchReport_not_found_witness:
  "report (sr_state (searchReport (example_track '' CIV-9 '') None
       (reports_lookup None [example_report ''CIV-1'' Assigned, example_report ''CIV-2'' Submitted]))) = None
   \<and> sr_lookups (searchReport (example_track '' CIV-9 '') None
       (reports_lookup None [example_report ''CIV-1'' Assigned, example_report ''CIV-2'' Submitted])) = [''CIV-9'']
   \<and> map toast_title (sr_toasts (searchReport (example_track '' CIV-9 '') None
       (reports_lookup None [example_report ''CIV-1'' Assigned, example_report ''CIV-2'' Submitted])))
      = [''Report not found'']"
proof -
  let ?table = "[example_report ''CIV-1'' Assigned, example_report ''CIV-2'' Submitted]"
  have rid: "''CIV-9'' = search_reportId (example_track '' CIV-9 '') None"
    by (simp add: search_reportId_def example_track_def trim_def is_space_def)
  have ne: "''CIV-9'' \<noteq> []" by simp
  have nomatch: "\<forall>r \<in> set ?table. report_number r \<noteq> ''CIV-9''"
    by (simp add: example_report_def)
  from searchReport_not_found [OF rid ne nomatch refl]
  show ?thesis by simp
qed

section \<open>Leaderboard: properties\<close>

lemma points_enrich [simp]: "points (enrich m p) = points p" "user_id (enrich m p) = user_id p"
  by (simp_all add: enrich_def)







section \<open>Education: properties\<close>

lemma handleAnswer_progress [simp]:
  "userProgress (ar_state (handleAnswer user st a)) = userProgress st"
  by (simp add: handleAnswer_def Let_def split: option.splits)


lemma handleAnswer_resumed_progress [simp]:
  "userProgress (fst (handleAnswer_resumed st p)) = userProgress st @ [progress_of (pa_insert p)]"
  by (simp add: handleAnswer_resumed_def progress_of_def)

lemma handleNext_progress [simp]: "userProgress (fst (handleNext st)) = userProgress st"
  by (simp add: handleNext_def Let_def)

lemma handleStartQuiz_progress [simp]: "userProgress (handleStartQuiz st c) = userProgress st"
  by (simp add: handleStartQuiz_def)

lemma exitQuiz_progress [simp]: "userProgress (exitQuiz st) = userProgress st"
  by (simp add: exitQuiz_def)

lemma records_for_Nil [simp]: "records_for [] u q = 0"
  by (simp add: records_for_def)

lemma records_for_append [simp]:
  "records_for (xs @ ys) u q = records_for xs u q + records_for ys u q"
  by (simp add: records_for_def)











lemma list_ex_ident:
  "list_ex (\<lambda>q. quiz_ident q = i) cq \<longleftrightarrow> i \<in> quiz_ident ` set cq"
  by (induction cq) auto

lemma completed_le_total:
  assumes "distinct (map quiz_id ps)"
  shows "length (filter (\<lambda>p. list_ex (\<lambda>q. quiz_ident q = quiz_id p) cq) ps) \<le> length cq"
proof -
  let ?F = "filter (\<lambda>p. list_ex (\<lambda>q. quiz_ident q = quiz_id p) cq) ps"
  have d: "distinct (map quiz_id ?F)" using assms by (rule distinct_map_filter)
  have sub: "set (map quiz_id ?F) \<subseteq> set (map quiz_ident cq)"
    by (auto simp: list_ex_ident)
  have "length ?F = card (set (map quiz_id ?F))"
    using distinct_card [OF d] by simp
  also have "\<dots> \<le> card (set (map quiz_ident cq))"
    using sub by (intro card_mono) simp_all
  also have "\<dots> \<le> length cq"
    using card_length [of "map quiz_ident cq"] by simp
  finally show ?thesis .
qed

lemma completed_eq_total_iff:
  assumes "distinct (map quiz_id ps)" and "distinct (map quiz_ident cq)"
  shows "length (filter (\<lambda>p. list_ex (\<lambda>q. quiz_ident q = quiz_id p) cq) ps) = length cq
     \<longleftrightarrow> (\<forall>q \<in> set cq. \<exists>p \<in> set ps. quiz_id p = quiz_ident q)"
proof -
  let ?F = "filter (\<lambda>p. list_ex (\<lambda>q. quiz_ident q = quiz_id p) cq) ps"
  have d: "distinct (map quiz_id ?F)" using assms(1) by (rule distinct_map_filter)
  have sub: "set (map quiz_id ?F) \<subseteq> set (map quiz_ident cq)"
    by (auto simp: list_ex_ident)
  have lenF: "length ?F = card (set (map quiz_id ?F))"
    using distinct_card [OF d] by simp
  have lenC: "length cq = card (set (map quiz_ident cq))"
    using distinct_card [OF assms(2)] by simp
  show ?thesis
  proof
    assume "length ?F = length cq"
    with lenF lenC have "card (set (map quiz_id ?F)) = card (set (map quiz_ident cq))" by simp
    with sub have "set (map quiz_id ?F) = set (map quiz_ident cq)"
      by (intro card_subset_eq) simp_all
    then have "quiz_ident q \<in> quiz_id ` set ?F" if "q \<in> set cq" for q
      using that by auto
    then show "\<forall>q \<in> set cq. \<exists>p \<in> set ps. quiz_id p = quiz_ident q"
      by fastforce
  next
    assume all: "\<forall>q \<in> set cq. \<exists>p \<in> set ps. quiz_id p = quiz_ident q"
    have "set (map quiz_ident cq) \<subseteq> set (map quiz_id ?F)"
    proof
      fix x assume "x \<in> set (map quiz_ident cq)"
      then obtain q where q: "q \<in> set cq" "x = quiz_ident q" by auto
      with all obtain p where p: "p \<in> set ps" "quiz_id p = quiz_ident q" by auto
      with q have "p \<in> set ?F" by (simp add: list_ex_ident)
      with p q show "x \<in> set (map quiz_id ?F)" by force
    qed
    with sub have "set (map quiz_id ?F) = set (map quiz_ident cq)" by auto
    with lenF lenC show "length ?F = length cq" by simp
  qed
qed

text \<open>
  C6, as amended. For a category with at least one question, when no two of the user's
  progress records are for the same quiz and no two questions share an id, the ratio
  completed/total lies between 0 and 1, and it is 1 exactly when every question of the
  category has a progress record; completed is the number of progress records whose quiz id
  is the id of a question of the category.
\<close>

theorem category_progress_ratio:
  assumes "distinct (map quiz_id (userProgress st))"
    and "distinct (map quiz_ident (quizzes st))"
    and "getCategoryQuizzes st categoryId \<noteq> []"
    and "progress = getCategoryProgress st categoryId"
  shows "0 \<le> progress_ratio progress \<and> progress_ratio progress \<le> 1
     \<and> (progress_ratio progress = 1 \<longleftrightarrow>
          (\<forall>q \<in> set (getCategoryQuizzes st categoryId).
             \<exists>p \<in> set (userProgress st). quiz_id p = quiz_ident q))
     \<and> completed progress =
          length (filter (\<lambda>p. quiz_id p \<in> quiz_ident ` set (getCategoryQuizzes st categoryId))
                    (userProgress st))"
proof -
  let ?cq = "getCategoryQuizzes st categoryId"
  let ?c = "completed progress" and ?t = "total_quizzes progress"
  have c: "?c = length (filter (\<lambda>p. list_ex (\<lambda>q. quiz_ident q = quiz_id p) ?cq) (userProgress st))"
    and t: "?t = length ?cq"
    using assms(4) by (simp_all add: getCategoryProgress_def Let_def)
  have dq: "distinct (map quiz_ident ?cq)"
    using assms(2) unfolding getCategoryQuizzes_def by (rule distinct_map_filter)
  have tpos: "0 < ?t" using assms(3) t by simp
  have le: "?c \<le> ?t" unfolding c t using assms(1) by (rule completed_le_total)
  have eq: "?c = ?t \<longleftrightarrow> (\<forall>q \<in> set ?cq. \<exists>p \<in> set (userProgress st). quiz_id p = quiz_ident q)"
    unfolding c t using assms(1) dq by (rule completed_eq_total_iff)
  have r1: "0 \<le> progress_ratio progress" by (simp add: progress_ratio_def)
  have r2: "progress_ratio progress \<le> 1" using le tpos by (simp add: progress_ratio_def)
  have r3: "progress_ratio progress = 1 \<longleftrightarrow> ?c = ?t" using tpos by (auto simp: progress_ratio_def)
  have r4: "?c = length (filter (\<lambda>p. quiz_id p \<in> quiz_ident ` set ?cq) (userProgress st))"
    unfolding c by (simp add: list_ex_ident)
  from r1 r2 r3 eq r4 show ?thesis by simp
qed

theorem category_progress_ratio_witness:
  "progress_ratio (getCategoryProgress
       (example_education
          [example_quiz ''q1'' ''traffic'', example_quiz ''q2'' ''traffic'', example_quiz ''q3'' ''waste'']
          [\<lparr> quiz_id = ''q1'', is_correct = True \<rparr>, \<lparr> quiz_id = ''q3'', is_correct = False \<rparr>])
       ''traffic'') \<le> 1
   \<and> completed (getCategoryProgress
       (example_education
          [example_quiz ''q1'' ''traffic'', example_quiz ''q2'' ''traffic'', example_quiz ''q3'' ''waste'']
          [\<lparr> quiz_id = ''q1'', is_correct = True \<rparr>, \<lparr> quiz_id = ''q3'', is_correct = False \<rparr>])
       ''traffic'') = 1
   \<and> progress_ratio (getCategoryProgress
       (example_education
          [example_quiz ''q1'' ''traffic'', example_quiz ''q2'' ''traffic'', example_quiz ''q3'' ''waste'']
          [\<lparr> quiz_id = ''q1'', is_correct = True \<rparr>, \<lparr> quiz_id = ''q2'', is_correct = False \<rparr>])
       ''traffic'') = 1"
proof -
  let ?qs = "[example_quiz ''q1'' ''traffic'', example_quiz ''q2'' ''traffic'', example_quiz ''q3'' ''waste'']"
  let ?half = "example_education ?qs
                 [\<lparr> quiz_id = ''q1'', is_correct = True \<rparr>, \<lparr> quiz_id = ''q3'', is_correct = False \<rparr>]"
  let ?full = "example_education ?qs
                 [\<lparr> quiz_id = ''q1'', is_correct = True \<rparr>, \<lparr> quiz_id = ''q2'', is_correct = False \<rparr>]"
  have d1: "distinct (map quiz_id (userProgress ?half))"
    and d2: "distinct (map quiz_ident (quizzes ?half))"
    and n1: "getCategoryQuizzes ?half ''traffic'' \<noteq> []"
    and e1: "distinct (map quiz_id (userProgress ?full))"
    and e2: "distinct (map quiz_ident (quizzes ?full))"
    and m1: "getCategoryQuizzes ?full ''traffic'' \<noteq> []"
    by (simp_all add: example_education_def example_quiz_def getCategoryQuizzes_def)
  from category_progress_ratio [OF d1 d2 n1 refl] category_progress_ratio [OF e1 e2 m1 refl]
  show ?thesis
    by (simp add: example_education_def example_quiz_def getCategoryQuizzes_def)
qed

text \<open>
  C6 as stated fails on the code. With two progress records for the one question of a
  category the ratio is 2; with two records for the first of two questions the ratio is 1
  although the second question has no record; and with two questions of the same id and one
  record for it, every question has a record and the ratio is 1/2.
\<close>

theorem category_progress_ratio_counterexample:
  "getCategoryQuizzes
       (example_education [example_quiz ''q1'' ''traffic'']
          [\<lparr> quiz_id = ''q1'', is_correct = True \<rparr>, \<lparr> quiz_id = ''q1'', is_correct = False \<rparr>])
       ''traffic'' \<noteq> []
   \<and> progress_ratio
       (getCategoryProgress
          (example_education [example_quiz ''q1'' ''traffic'']
             [\<lparr> quiz_id = ''q1'', is_correct = True \<rparr>, \<lparr> quiz_id = ''q1'', is_correct = False \<rparr>])
          ''traffic'') = 2
   \<and> progress_ratio
       (getCategoryProgress
          (example_education [example_quiz ''q1'' ''traffic'', example_quiz ''q2'' ''traffic'']
             [\<lparr> quiz_id = ''q1'', is_correct = True \<rparr>, \<lparr> quiz_id = ''q1'', is_correct = False \<rparr>])
          ''traffic'') = 1
   \<and> \<not> list_ex (\<lambda>p. quiz_id p = ''q2'')
         [\<lparr> quiz_id = ''q1'', is_correct = True \<rparr>, \<lparr> quiz_id = ''q1'', is_correct = False \<rparr>]
   \<and> progress_ratio
       (getCategoryProgress
          (example_education [example_quiz ''q1'' ''traffic'', example_quiz ''q1'' ''traffic'']
             [\<lparr> quiz_id = ''q1'', is_correct = True \<rparr>])
          ''traffic'') = 1 / 2
   \<and> list_ex (\<lambda>p. quiz_id p = ''q1'') [\<lparr> quiz_id = ''q1'', is_correct = True \<rparr>]"
  by (simp add: getCategoryQuizzes_def getCategoryProgress_def progress_ratio_def
        example_education_def example_quiz_def Let_def)

section \<open>Contact form: properties\<close>

lemma issues_empty_iff:
  "contactSchema_issues is_email fd = [] \<longleftrightarrow> schema_passes is_email fd"
  by (auto simp: contactSchema_issues_def schema_passes_def)

lemma fieldErrors_name:
  "fieldErrors (contactSchema_issues is_email fd) ''name'' =
     (if length (name fd) > 100 then Some (too_big 100)
      else if length (name fd) < 2 then Some ''Name must be at least 2 characters''
      else None)"
  by (simp add: contactSchema_issues_def fieldErrors_def)

lemma fieldErrors_email:
  "fieldErrors (contactSchema_issues is_email fd) ''email'' =
     (if length (email fd) > 255 then Some (too_big 255)
      else if \<not> is_email (email fd) then Some ''Please enter a valid email address''
      else None)"
  by (simp add: contactSchema_issues_def fieldErrors_def)

lemma fieldErrors_subject:
  "fieldErrors (contactSchema_issues is_email fd) ''subject'' =
     (if length (subject fd) > 200 then Some (too_big 200)
      else if length (subject fd) < 5 then Some ''Subject must be at least 5 characters''
      else None)"
  by (simp add: contactSchema_issues_def fieldErrors_def)

lemma fieldErrors_message:
  "fieldErrors (contactSchema_issues is_email fd) ''message'' =
     (if length (message fd) > 1000 then Some (too_big 1000)
      else if length (message fd) < 10 then Some ''Message must be at least 10 characters''
      else None)"
  by (simp add: contactSchema_issues_def fieldErrors_def)

lemma fieldErrors_dom:
  "dom (fieldErrors (contactSchema_issues is_email fd)) \<subseteq> {''name'', ''email'', ''subject'', ''message''}"
  by (simp add: contactSchema_issues_def fieldErrors_def)

text \<open>
  C9. When the form fails the schema (name of 2 to 100 characters, valid email of at most 255,
  subject of 5 to 200, message of 10 to 1000), no insert is issued and no notification shown,
  and the error messages are set per field: at least one, for these four fields only, each
  failing field with its message (the length limit's message when both checks of the email
  fail). When the form passes, one insert of the form's values is issued and the errors are
  cleared. So an insert is issued only for a form that passed the schema.
\<close>

theorem contact_validation_precedes_insert:
  assumes "res = handleSubmit_contact is_email st insert_error"
    and "fd = formData_contact st"
  shows "(\<not> schema_passes is_email fd \<longrightarrow>
            cr_inserts res = [] \<and> cr_toasts res = []
          \<and> dom (errors (cr_state res)) \<noteq> {}
          \<and> dom (errors (cr_state res)) \<subseteq> {''name'', ''email'', ''subject'', ''message''}
          \<and> errors (cr_state res) ''name'' =
               (if length (name fd) > 100 then Some (too_big 100)
                else if length (name fd) < 2 then Some ''Name must be at least 2 characters''
                else None)
          \<and> errors (cr_state res) ''email'' =
               (if length (email fd) > 255 then Some (too_big 255)
                else if \<not> is_email (email fd) then Some ''Please enter a valid email address''
                else None)
          \<and> errors (cr_state res) ''subject'' =
               (if length (subject fd) > 200 then Some (too_big 200)
                else if length (subject fd) < 5 then Some ''Subject must be at least 5 characters''
                else None)
          \<and> errors (cr_state res) ''message'' =
               (if length (message fd) > 1000 then Some (too_big 1000)
                else if length (message fd) < 10 then Some ''Message must be at least 10 characters''
                else None))
     \<and> (schema_passes is_email fd \<longrightarrow> cr_inserts res = [fd] \<and> errors (cr_state res) = Map.empty)
     \<and> (cr_inserts res \<noteq> [] \<longrightarrow> schema_passes is_email fd)"
proof -
  let ?issues = "contactSchema_issues is_email fd"
  have fail: "cr_inserts res = [] \<and> cr_toasts res = [] \<and> errors (cr_state res) = fieldErrors ?issues"
    if "\<not> schema_passes is_email fd"
    using that assms issues_empty_iff [of is_email fd]
    by (simp add: handleSubmit_contact_def Let_def)
  have pass: "cr_inserts res = [fd] \<and> errors (cr_state res) = Map.empty"
    if "schema_passes is_email fd"
    using that assms issues_empty_iff [of is_email fd]
    by (simp add: handleSubmit_contact_def Let_def split: option.splits)
  have nonempty: "dom (fieldErrors ?issues) \<noteq> {}" if "\<not> schema_passes is_email fd"
  proof -
    from that have "fieldErrors ?issues ''name'' \<noteq> None \<or> fieldErrors ?issues ''email'' \<noteq> None
        \<or> fieldErrors ?issues ''subject'' \<noteq> None \<or> fieldErrors ?issues ''message'' \<noteq> None"
      unfolding fieldErrors_name fieldErrors_email fieldErrors_subject fieldErrors_message
      by (auto simp: schema_passes_def)
    then show ?thesis by auto
  qed
  show ?thesis
  proof (cases "schema_passes is_email fd")
    case True
    with pass show ?thesis by simp
  next
    case False
    with fail nonempty fieldErrors_dom [of is_email fd] show ?thesis
      by (simp add: fieldErrors_name fieldErrors_email fieldErrors_subject fieldErrors_message)
  qed
qed

theorem contact_validation_precedes_insert_witness:
  "cr_inserts (handleSubmit_contact (\<lambda>s. CHR ''@'' \<in> set s)
       (example_contact \<lparr> name = ''A'', email = ''asha.example.org'', subject = ''Streetlight'',
                          message = ''The light is out.'' \<rparr>) None) = []
   \<and> errors (cr_state (handleSubmit_contact (\<lambda>s. CHR ''@'' \<in> set s)
       (example_contact \<lparr> name = ''A'', email = ''asha.example.org'', subject = ''Streetlight'',
                          message = ''The light is out.'' \<rparr>) None)) ''name''
       = Some ''Name must be at least 2 characters''
   \<and> errors (cr_state (handleSubmit_contact (\<lambda>s. CHR ''@'' \<in> set s)
       (example_contact \<lparr> name = ''A'', email = ''asha.example.org'', subject = ''Streetlight'',
                          message = ''The light is out.'' \<rparr>) None)) ''email''
       = Some ''Please enter a valid email address''
   \<and> errors (cr_state (handleSubmit_contact (\<lambda>s. CHR ''@'' \<in> set s)
       (example_contact \<lparr> name = ''A'', email = ''asha.example.org'', subject = ''Streetlight'',
                          message = ''The light is out.'' \<rparr>) None)) ''subject'' = None
   \<and> cr_inserts (handleSubmit_contact (\<lambda>s. CHR ''@'' \<in> set s)
       (example_contact \<lparr> name = ''Asha'', email = ''asha@example.org'', subject = ''Streetlight'',
                          message = ''The light is out.'' \<rparr>) None)
       = [\<lparr> name = ''Asha'', email = ''asha@example.org'', subject = ''Streetlight'',
            message = ''The light is out.'' \<rparr>]"
proof -
  let ?e = "\<lambda>s. CHR ''@'' \<in> set s"
  let ?bad = "\<lparr> name = ''A'', email = ''asha.example.org'', subject = ''Streetlight'',
                 message = ''The light is out.'' \<rparr>"
  let ?good = "\<lparr> name = ''Asha'', email = ''asha@example.org'', subject = ''Streetlight'',
                  message = ''The light is out.'' \<rparr>"
  have b: "?bad = formData_contact (example_contact ?bad)"
    and g: "?good = formData_contact (example_contact ?good)"
    by (simp_all add: example_contact_def)
  have nb: "\<not> schema_passes ?e ?bad" and pg: "schema_passes ?e ?good"
    by (simp_all add: schema_passes_def)
  from contact_validation_precedes_insert [OF refl b, of ?e None]
       contact_validation_precedes_insert [OF refl g, of ?e None] nb pg
  show ?thesis by simp
qed

section \<open>Report submission: properties\<close>

lemma length_slice0: "0 \<le> e \<Longrightarrow> length (slice0 xs e) \<le> nat e"
  by (simp add: slice0_def)

lemma length_drop_index: "length (drop_index xs i) \<le> length xs"
proof -
  have "length (drop_index xs i) \<le> length (zip xs [0 ..< length xs])"
    unfolding drop_index_def length_map by (rule length_filter_le)
  then show ?thesis by simp
qed

lemma handleImageUpload_le_5:
  assumes "length (images st) \<le> 5"
  shows "length (images (handleImageUpload readAsDataURL st files)) \<le> 5"
proof (cases files)
  case None
  with assms show ?thesis by (simp add: handleImageUpload_def)
next
  case (Some fs)
  from assms have "0 \<le> 5 - int (length (images st))" by simp
  from length_slice0 [OF this, of fs] assms Some show ?thesis
    by (simp add: handleImageUpload_def Let_def)
qed

lemma removeImage_le_5:
  "length (images st) \<le> 5 \<Longrightarrow> length (images (removeImage st index)) \<le> 5"
  using length_drop_index [of "images st" index] by (simp add: removeImage_def)

lemma pick_images_le_5:
  "length (images st) \<le> 5 \<Longrightarrow> length (images (pick_images readAsDataURL st evs)) \<le> 5"
proof (induction readAsDataURL st evs rule: pick_images.induct)
  case (1 readAsDataURL st)
  then show ?case by simp
next
  case (2 readAsDataURL st files es)
  from "2.IH" [OF handleImageUpload_le_5 [OF "2.prems"]] show ?case by simp
next
  case (3 readAsDataURL st index es)
  from "3.IH" [OF removeImage_le_5 [OF "3.prems"]] show ?case by simp
qed

lemma upload_images_eq:
  "upload_images store uid k imgs acc =
     acc @ map (\<lambda>(img, j). getPublicUrl store (make_fileName uid (date_now store j) img))
             (filter (\<lambda>(img, j). upload store (make_fileName uid (date_now store j) img) img = None)
                (zip imgs [k ..< k + length imgs]))"
proof (induction imgs arbitrary: k acc)
  case Nil
  show ?case by simp
next
  case (Cons img rest)
  have z: "zip (img # rest) [k ..< k + length (img # rest)] = (img, k) # zip rest [Suc k ..< Suc k + length rest]"
    by (subst upt_rec) simp
  show ?case
    unfolding z by (simp add: Cons.IH Let_def split: option.splits)
qed

text \<open>
  C1. A signed-in user submits a form whose category, title and description are not empty,
  with images picked by any sequence of selections and removals. Then one insert is issued,
  whatever the uploads did, and one notification is shown; the insert's image_urls are the
  public URLs of exactly the images whose upload reported no error, one each and in their
  order, at most 5; and the row the table creates for it has the status submitted and these
  image_urls.
\<close>

theorem report_submission_images:
  assumes "fd_category (formData st) \<noteq> []" and "fd_title (formData st) \<noteq> []"
    and "fd_description (formData st) \<noteq> []"
    and "images st0 = []" and "images st = images (pick_images readAsDataURL st0 evs)"
    and "user = Some uid"
    and "res = handleSubmit_report store user st resp"
  shows "\<exists>row. sb_inserts res = [row]
     \<and> new_image_urls row =
         map (\<lambda>(img, k). getPublicUrl store (make_fileName uid (date_now store k) img))
           (successful_uploads store uid (images st))
     \<and> length (new_image_urls row) = length (successful_uploads store uid (images st))
     \<and> length (new_image_urls row) \<le> 5
     \<and> length (sb_toasts res) = 1
     \<and> (\<forall>ident number now.
           status (created_row ident number now row) = Submitted \<and>
           image_urls (created_row ident number now row) = Some (new_image_urls row))"
proof -
  define urls where "urls = upload_images store uid 0 (images st) []"
  have urls: "urls = map (\<lambda>(img, k). getPublicUrl store (make_fileName uid (date_now store k) img))
           (successful_uploads store uid (images st))"
    unfolding urls_def upload_images_eq successful_uploads_def by simp
  have "length (images st) \<le> 5"
    unfolding assms(5) using assms(4) by (intro pick_images_le_5) simp
  moreover have "length (successful_uploads store uid (images st)) \<le> length (images st)"
    unfolding successful_uploads_def
    using length_filter_le [of _ "zip (images st) [0 ..< length (images st)]"] by simp
  ultimately have le: "length urls \<le> 5" unfolding urls by simp
  obtain row where row: "sb_inserts res = [row]" "new_image_urls row = urls" "length (sb_toasts res) = 1"
    using assms(1,2,3,6,7) unfolding urls_def
    by (auto simp: handleSubmit_report_def Let_def split: option.splits)
  have "\<forall>ident number now.
           status (created_row ident number now row) = Submitted \<and>
           image_urls (created_row ident number now row) = Some (new_image_urls row)"
    by (simp add: created_row_def)
  with row urls le show ?thesis by auto
qed

theorem report_submission_images_witness:
  "\<exists>row. sb_inserts (handleSubmit_report example_store (Some ''u1'')
       (pick_images (\<lambda>f. ''data:'' @ file_content f) example_form
          [Select (Some [example_file ''a.png'', example_file ''b.png'']), Remove 7, Select None,
           Select (Some [example_file ''c.png'', example_file ''d.png'', example_file ''e.png'',
                         example_file ''f.png''])])
       \<lparr> data = Some ''CIV-2024-0001'', error = None \<rparr>) = [row]
     \<and> length (new_image_urls row) = 4"
proof -
  let ?r = "\<lambda>f. ''data:'' @ file_content f"
  let ?evs = "[Select (Some [example_file ''a.png'', example_file ''b.png'']), Remove 7, Select None,
           Select (Some [example_file ''c.png'', example_file ''d.png'', example_file ''e.png'',
                         example_file ''f.png''])]"
  let ?st = "pick_images ?r example_form ?evs"
  have imgs: "images ?st = [example_file ''a.png'', example_file ''b.png'', example_file ''c.png'',
                            example_file ''d.png'', example_file ''e.png'']"
    by (simp add: example_form_def handleImageUpload_def removeImage_def slice0_def drop_index_def
          upt_rec Let_def)
  have fd: "formData ?st = formData example_form"
    by (simp add: example_form_def handleImageUpload_def removeImage_def Let_def)
  have c: "fd_category (formData ?st) \<noteq> []" and t: "fd_title (formData ?st) \<noteq> []"
    and d: "fd_description (formData ?st) \<noteq> []"
    unfolding fd by (simp_all add: example_form_def)
  have e: "images example_form = []" by (simp add: example_form_def)
  have n: "length (successful_uploads example_store ''u1'' (images ?st)) = 4"
    unfolding imgs by (simp add: successful_uploads_def example_store_def example_file_def upt_rec)
  from report_submission_images [where store = example_store and uid = "''u1''"
      and resp = "\<lparr> data = Some ''CIV-2024-0001'', error = None \<rparr>", OF c t d e refl refl refl] n
  show ?thesis by auto
qed

end
